theory Spec2Isabelle
  imports Complex_Main
begin

section \<open>JavaScript numbers\<close>

text \<open>
  Every field of \<open>LineParameters\<close> and every intermediate quantity of
  \<open>src/lib/inductanceCalculator.ts\<close> is a JavaScript \<open>number\<close>. The model keeps the
  special values of IEEE 754 that decide what the program does on degenerate input
  (both zeros, both infinities, NaN) and takes the finite non-zero values to be real
  numbers with exact arithmetic: rounding, overflow and underflow are not modelled, and
  a decimal literal such as \<open>0.7788\<close> is that decimal fraction. \<open>Fin 0\<close> is \<open>+0\<close>,
  \<open>NegZero\<close> is \<open>-0\<close>.
\<close>

datatype jsnum = Fin real | NegZero | PosInf | NegInf | NaN

fun sign_neg :: "jsnum \<Rightarrow> bool" where
  "sign_neg (Fin x) = (x < 0)"
| "sign_neg NegZero = True"
| "sign_neg PosInf = False"
| "sign_neg NegInf = True"
| "sign_neg NaN = False"

fun fin_val :: "jsnum \<Rightarrow> real" where
  "fin_val (Fin x) = x"
| "fin_val NegZero = 0"
| "fin_val PosInf = 0"
| "fin_val NegInf = 0"
| "fin_val NaN = 0"

definition is_inf :: "jsnum \<Rightarrow> bool" where
  "is_inf a = (a = PosInf \<or> a = NegInf)"

definition is_zero :: "jsnum \<Rightarrow> bool" where
  "is_zero a = (a = Fin 0 \<or> a = NegZero)"

definition is_finite :: "jsnum \<Rightarrow> bool" where
  "is_finite a = (a \<noteq> NaN \<and> \<not> is_inf a)"

definition signed_zero :: "bool \<Rightarrow> jsnum" where
  "signed_zero s = (if s then NegZero else Fin 0)"

definition signed_inf :: "bool \<Rightarrow> jsnum" where
  "signed_inf s = (if s then NegInf else PosInf)"

text \<open>The operator \<open>*\<close>.\<close>

definition js_mul :: "jsnum \<Rightarrow> jsnum \<Rightarrow> jsnum" where
  "js_mul a b =
     (if a = NaN \<or> b = NaN then NaN
      else if is_inf a \<or> is_inf b then
        (if is_zero a \<or> is_zero b then NaN else signed_inf (sign_neg a \<noteq> sign_neg b))
      else if is_zero a \<or> is_zero b then signed_zero (sign_neg a \<noteq> sign_neg b)
      else Fin (fin_val a * fin_val b))"

text \<open>The operator \<open>/\<close>: a non-zero number over a zero is an infinity, \<open>0/0\<close> is NaN.\<close>

definition js_div :: "jsnum \<Rightarrow> jsnum \<Rightarrow> jsnum" where
  "js_div a b =
     (if a = NaN \<or> b = NaN then NaN
      else if is_inf a then
        (if is_inf b then NaN else signed_inf (sign_neg a \<noteq> sign_neg b))
      else if is_inf b then signed_zero (sign_neg a \<noteq> sign_neg b)
      else if is_zero b then
        (if is_zero a then NaN else signed_inf (sign_neg a \<noteq> sign_neg b))
      else if is_zero a then signed_zero (sign_neg a \<noteq> sign_neg b)
      else Fin (fin_val a / fin_val b))"

text \<open>The operator \<open>+\<close>: a sum that is zero is \<open>+0\<close> unless both summands are \<open>-0\<close>.\<close>

definition js_add :: "jsnum \<Rightarrow> jsnum \<Rightarrow> jsnum" where
  "js_add a b =
     (if a = NaN \<or> b = NaN then NaN
      else if is_inf a then (if is_inf b \<and> a \<noteq> b then NaN else a)
      else if is_inf b then b
      else if a = NegZero \<and> b = NegZero then NegZero
      else Fin (fin_val a + fin_val b))"

fun js_neg :: "jsnum \<Rightarrow> jsnum" where
  "js_neg (Fin x) = (if x = 0 then NegZero else Fin (- x))"
| "js_neg NegZero = Fin 0"
| "js_neg PosInf = NegInf"
| "js_neg NegInf = PosInf"
| "js_neg NaN = NaN"

text \<open>The operator \<open>-\<close>.\<close>

definition js_sub :: "jsnum \<Rightarrow> jsnum \<Rightarrow> jsnum" where
  "js_sub a b = js_add a (js_neg b)"

text \<open>The operator \<open>===\<close> on numbers: NaN equals nothing, the two zeros are equal.\<close>

definition js_strict_eq :: "jsnum \<Rightarrow> jsnum \<Rightarrow> bool" where
  "js_strict_eq a b =
     (if a = NaN \<or> b = NaN then False
      else if is_zero a \<and> is_zero b then True
      else a = b)"

text \<open>\<open>Math.sqrt\<close>.\<close>

fun js_sqrt :: "jsnum \<Rightarrow> jsnum" where
  "js_sqrt (Fin x) = (if x < 0 then NaN else Fin (sqrt x))"
| "js_sqrt NegZero = NegZero"
| "js_sqrt PosInf = PosInf"
| "js_sqrt NegInf = NaN"
| "js_sqrt NaN = NaN"

text \<open>\<open>Math.log\<close>: the logarithm of either zero is \<open>-Infinity\<close>, of a negative number NaN.\<close>

fun js_log :: "jsnum \<Rightarrow> jsnum" where
  "js_log (Fin x) = (if x < 0 then NaN else if x = 0 then NegInf else Fin (ln x))"
| "js_log NegZero = NegInf"
| "js_log PosInf = PosInf"
| "js_log NegInf = NaN"
| "js_log NaN = NaN"

definition odd_integer :: "jsnum \<Rightarrow> bool" where
  "odd_integer e = (is_finite e \<and> fin_val e \<in> \<int> \<and> odd \<lfloor>fin_val e\<rfloor>)"

text \<open>
  \<open>Math.pow\<close>, case by case as ECMAScript's \<open>Number::exponentiate\<close> lists them: the
  exponent NaN or zero first, then the base NaN, infinite or zero, then an infinite
  exponent, then a negative base with a fractional exponent, and last the power itself.
\<close>

definition js_pow :: "jsnum \<Rightarrow> jsnum \<Rightarrow> jsnum" where
  "js_pow b e =
     (if e = NaN then NaN
      else if is_zero e then Fin 1
      else if b = NaN then NaN
      else if b = PosInf then (if \<not> sign_neg e then PosInf else Fin 0)
      else if b = NegInf then
        (if \<not> sign_neg e then (if odd_integer e then NegInf else PosInf)
         else (if odd_integer e then NegZero else Fin 0))
      else if b = Fin 0 then (if \<not> sign_neg e then Fin 0 else PosInf)
      else if b = NegZero then
        (if \<not> sign_neg e then (if odd_integer e then NegZero else Fin 0)
         else (if odd_integer e then NegInf else PosInf))
      else if e = PosInf then
        (if \<bar>fin_val b\<bar> > 1 then PosInf else if \<bar>fin_val b\<bar> = 1 then NaN else Fin 0)
      else if e = NegInf then
        (if \<bar>fin_val b\<bar> > 1 then Fin 0 else if \<bar>fin_val b\<bar> = 1 then NaN else PosInf)
      else if fin_val b < 0 \<and> fin_val e \<notin> \<int> then NaN
      else if fin_val b < 0 \<and> odd_integer e then Fin (- (\<bar>fin_val b\<bar> powr fin_val e))
      else Fin (\<bar>fin_val b\<bar> powr fin_val e))"

section \<open>The data model\<close>

record LineParameters =
  height :: jsnum
  phaseSeparation :: jsnum
  conductorDiameter :: jsnum
  bundleSpacing :: jsnum
  numberOfBundles :: jsnum

text \<open>
  The strings of a step are template literals. A template literal is kept as the
  sequence of its segments: literal text, a number converted by \<open>Number::toString\<close>
  (\<open>Num\<close>) and a number formatted by \<open>toFixed\<close> with its digit count (\<open>Fixed\<close>). The
  text shown is the concatenation of the segments' renderings, each a function of the
  number alone. Characters of the source's literals outside ASCII are written in ASCII
  (the multiplication sign as \<open>x\<close>, the root sign as \<open>sqrt\<close>, subscript and superscript
  digits as digits).
\<close>

datatype seg = Lit string | Num jsnum | Fixed jsnum nat

record CalculationStep =
  label :: string
  formula :: string
  step_value :: "seg list"
  explanation :: "seg list"

record CalculationResults =
  req :: jsnum
  maxwellMatrix :: "jsnum list list"
  inductanceUntransposed :: "jsnum list list"
  inductanceTransposed :: "jsnum list list"
  selfInductance :: jsnum
  mutualInductanceAvg :: jsnum
  steps :: "CalculationStep list"

definition COEFFICIENT :: jsnum where
  "COEFFICIENT = Fin (2 / 10)"

section \<open>The solver\<close>

text \<open>
  Step 1 of \<open>calculateInductanceMatrix\<close>: the conditional that assigns \<open>req\<close> and pushes
  the first step. It yields the two together.
\<close>

definition equivalentRadiusStep :: "jsnum \<Rightarrow> jsnum \<Rightarrow> jsnum \<Rightarrow> jsnum \<times> CalculationStep" where
  "equivalentRadiusStep r B N =
     (if js_strict_eq N (Fin 1) \<or> js_strict_eq B (Fin 0) then
        (let req = js_mul r (Fin (7788 / 10000)) in
         (req,
          \<lparr>label = ''Equivalent Radius (Single Conductor)'',
           formula = ''r_eq = r x 0.7788'',
           step_value = [Fixed (js_mul req (Fin 100)) 4, Lit '' cm = '', Fixed req 6, Lit '' m''],
           explanation = [Lit ''For single conductor, GMR = r x e^(-1/4)'']\<rparr>))
      else
        (let product = js_mul (js_mul N r) (js_pow B (js_sub N (Fin 1)));
             req = js_pow product (js_div (Fin 1) N) in
         (req,
          \<lparr>label = ''Equivalent Radius (Bundle)'',
           formula = ''r_eq = (N x r x R^(N-1))^(1/N)'',
           step_value = [Fixed (js_mul req (Fin 100)) 4, Lit '' cm = '', Fixed req 6, Lit '' m''],
           explanation = [Lit ''Bundle of '', Num N, Lit '' sub-conductors with spacing R = '',
                          Num (js_mul B (Fin 100)), Lit '' cm'']\<rparr>)))"

text \<open>
  \<open>calculateInductanceMatrix\<close>, statement by statement. The source has no \<open>throw\<close>, and
  none of the operations it calls throws (\<open>toFixed\<close> is called with 4 and 6 digits
  only), so the function returns a \<open>CalculationResults\<close> on every input. The constants
  \<open>MU_0\<close> and \<open>MU_R\<close> of the source are used nowhere.
\<close>

definition calculateInductanceMatrix :: "LineParameters \<Rightarrow> CalculationResults" where
  "calculateInductanceMatrix params =
     (let H = height params;
          S = phaseSeparation params;
          r = js_div (js_div (conductorDiameter params) (Fin 100)) (Fin 2);
          B = js_div (bundleSpacing params) (Fin 100);
          N = numberOfBundles params;
          (req, step1) = equivalentRadiusStep r B N;
          P11 = js_log (js_div (js_mul (Fin 2) H) req);
          P22 = P11;
          P33 = P11;
          step2 = \<lparr>label = ''Self Maxwell Coefficient (P11 = P22 = P33)'',
                   formula = ''P_ii = ln(2H / r_eq)'',
                   step_value = [Fixed P11 4],
                   explanation = [Lit ''ln(2 x '', Num H, Lit '' / '', Fixed req 4, Lit '') = ln('',
                                  Fixed (js_div (js_mul (Fin 2) H) req) 4, Lit '')'']\<rparr>;
          I12 = js_sqrt (js_add (js_mul (js_mul (Fin 4) H) H) (js_mul S S));
          P12 = js_log (js_div I12 S);
          step3 = \<lparr>label = ''Mutual Maxwell Coefficient (P12 = P23)'',
                   formula = ''P_12 = ln(sqrt(4H^2 + S^2) / S)'',
                   step_value = [Fixed P12 4],
                   explanation = [Lit ''ln(sqrt(4x'', Num H, Lit ''^2 + '', Num S, Lit ''^2) / '',
                                  Num S, Lit '') = ln('', Fixed I12 4, Lit '' / '', Num S,
                                  Lit '') = ln('', Fixed (js_div I12 S) 4, Lit '')'']\<rparr>;
          I13 = js_sqrt (js_add (js_mul (js_mul (Fin 4) H) H) (js_mul (js_mul (Fin 4) S) S));
          P13 = js_log (js_div I13 (js_mul (Fin 2) S));
          step4 = \<lparr>label = ''Mutual Maxwell Coefficient (P13)'',
                   formula = ''P_13 = ln(sqrt(4H^2 + 4S^2) / 2S)'',
                   step_value = [Fixed P13 4],
                   explanation = [Lit ''ln(sqrt(4x'', Num H, Lit ''^2 + 4x'', Num S, Lit ''^2) / 2x'',
                                  Num S, Lit '') = ln('', Fixed I13 4, Lit '' / '',
                                  Num (js_mul (Fin 2) S), Lit '') = ln('',
                                  Fixed (js_div I13 (js_mul (Fin 2) S)) 4, Lit '')'']\<rparr>;
          maxwellMatrix = [ [P11, P12, P13], [P12, P22, P12], [P13, P12, P33] ];
          inductanceUntransposed = map (\<lambda>row. map (\<lambda>val. js_mul val COEFFICIENT) row) maxwellMatrix;
          Ls = js_mul P11 COEFFICIENT;
          Lm12 = js_mul P12 COEFFICIENT;
          Lm13 = js_mul P13 COEFFICIENT;
          step5 = \<lparr>label = ''Self Inductance (L_s)'',
                   formula = ''L_s = 0.2 x P_ii'',
                   step_value = [Fixed Ls 4, Lit '' mH/km''],
                   explanation = [Lit ''0.2 x '', Fixed P11 4, Lit '' = '', Fixed Ls 4, Lit '' mH/km'']\<rparr>;
          step6 = \<lparr>label = ''Mutual Inductance (L12 = L23)'',
                   formula = ''L_12 = 0.2 x P_12'',
                   step_value = [Fixed Lm12 4, Lit '' mH/km''],
                   explanation = [Lit ''0.2 x '', Fixed P12 4, Lit '' = '', Fixed Lm12 4, Lit '' mH/km'']\<rparr>;
          step7 = \<lparr>label = ''Mutual Inductance (L13)'',
                   formula = ''L_13 = 0.2 x P_13'',
                   step_value = [Fixed Lm13 4, Lit '' mH/km''],
                   explanation = [Lit ''0.2 x '', Fixed P13 4, Lit '' = '', Fixed Lm13 4, Lit '' mH/km'']\<rparr>;
          PmAvg = js_div (js_add (js_mul (Fin 2) P12) P13) (Fin 3);
          LmAvg = js_mul PmAvg COEFFICIENT;
          step8 = \<lparr>label = ''Average Mutual Inductance (Transposed)'',
                   formula = ''L_m = 0.2 x (P12 + P23 + P13) / 3'',
                   step_value = [Fixed LmAvg 4, Lit '' mH/km''],
                   explanation = [Lit ''0.2 x ('', Fixed P12 4, Lit '' + '', Fixed P12 4, Lit '' + '',
                                  Fixed P13 4, Lit '') / 3'']\<rparr>;
          inductanceTransposed = [ [Ls, LmAvg, LmAvg], [LmAvg, Ls, LmAvg], [LmAvg, LmAvg, Ls] ]
      in \<lparr>req = req,
          maxwellMatrix = maxwellMatrix,
          inductanceUntransposed = inductanceUntransposed,
          inductanceTransposed = inductanceTransposed,
          selfInductance = Ls,
          mutualInductanceAvg = LmAvg,
          steps = [step1, step2, step3, step4, step5, step6, step7, step8]\<rparr>)"

text \<open>
  The three Maxwell coefficients as the solver computes them (the constants \<open>P11\<close>,
  \<open>P12\<close> and \<open>P13\<close> of the source), for reference in the statements below.
\<close>

definition selfCoefficient :: "jsnum \<Rightarrow> jsnum \<Rightarrow> jsnum" where
  "selfCoefficient H r_eq = js_log (js_div (js_mul (Fin 2) H) r_eq)"

definition adjacentCoefficient :: "jsnum \<Rightarrow> jsnum \<Rightarrow> jsnum" where
  "adjacentCoefficient H S =
     js_log (js_div (js_sqrt (js_add (js_mul (js_mul (Fin 4) H) H) (js_mul S S))) S)"

definition outerCoefficient :: "jsnum \<Rightarrow> jsnum \<Rightarrow> jsnum" where
  "outerCoefficient H S =
     js_log (js_div (js_sqrt (js_add (js_mul (js_mul (Fin 4) H) H) (js_mul (js_mul (Fin 4) S) S)))
                    (js_mul (Fin 2) S))"

section \<open>Inputs\<close>

text \<open>The parameters the form starts with (\<open>defaultParams\<close> of the calculator component).\<close>

definition defaultParams :: LineParameters where
  "defaultParams =
     \<lparr>height = Fin 15,
      phaseSeparation = Fin 11,
      conductorDiameter = Fin (318 / 100),
      bundleSpacing = Fin (4572 / 100),
      numberOfBundles = Fin 2\<rparr>"

text \<open>
  The ranges the data model gives the five fields: height, phase separation and conductor
  diameter positive, bundle spacing non-negative, the number of sub-conductors an integer
  from 1 on; all finite.
\<close>

fun positive :: "jsnum \<Rightarrow> bool" where
  "positive (Fin x) = (0 < x)"
| "positive NegZero = False"
| "positive PosInf = False"
| "positive NegInf = False"
| "positive NaN = False"

fun non_negative :: "jsnum \<Rightarrow> bool" where
  "non_negative (Fin x) = (0 \<le> x)"
| "non_negative NegZero = True"
| "non_negative PosInf = False"
| "non_negative NegInf = False"
| "non_negative NaN = False"

fun bundle_count :: "jsnum \<Rightarrow> bool" where
  "bundle_count (Fin x) = (x \<in> \<nat> \<and> 1 \<le> x)"
| "bundle_count NegZero = False"
| "bundle_count PosInf = False"
| "bundle_count NegInf = False"
| "bundle_count NaN = False"

definition valid_params :: "LineParameters \<Rightarrow> bool" where
  "valid_params p =
     (positive (height p) \<and> positive (phaseSeparation p) \<and> positive (conductorDiameter p)
      \<and> non_negative (bundleSpacing p) \<and> bundle_count (numberOfBundles p))"


text \<open>
  A computed number agrees with a decimal numeral \<open>c\<close> to three decimal places when it
  is finite and rounds to \<open>c\<close> at the third place: it lies at most half a unit of the
  third place below \<open>c\<close> and less than half a unit above.
\<close>

fun agrees_3dp :: "jsnum \<Rightarrow> real \<Rightarrow> bool" where
  "agrees_3dp (Fin x) c = (c - 5 / 10000 \<le> x \<and> x < c + 5 / 10000)"
| "agrees_3dp NegZero c = (c - 5 / 10000 \<le> 0 \<and> 0 < c + 5 / 10000)"
| "agrees_3dp PosInf c = False"
| "agrees_3dp NegInf c = False"
| "agrees_3dp NaN c = False"

text \<open>A weaker agreement: the two differ by less than one unit of the third place.\<close>

fun within_a_thousandth :: "jsnum \<Rightarrow> real \<Rightarrow> bool" where
  "within_a_thousandth (Fin x) c = (\<bar>x - c\<bar> < 1 / 1000)"
| "within_a_thousandth NegZero c = (\<bar>c\<bar> < 1 / 1000)"
| "within_a_thousandth PosInf c = False"
| "within_a_thousandth NegInf c = False"
| "within_a_thousandth NaN c = False"

text \<open>
  The bundle formula in the specification's words, over the reals: for \<open>N\<close> sub-conductors
  of radius \<open>r\<close> at spacing \<open>B\<close>, \<open>r_eq = (N r B^(N-1))^(1/N)\<close>; and the formula
  \<open>sqrt (r B)\<close> that one variant of the user interface displays.
\<close>

definition bundleRadius :: "nat \<Rightarrow> real \<Rightarrow> real \<Rightarrow> real" where
  "bundleRadius N r B = root N (real N * r * B ^ (N - 1))"


text \<open>The Taylor polynomial of degree 5 of the exponential, for bounding logarithms.\<close>

definition exp_poly :: "real \<Rightarrow> real" where
  "exp_poly x = 1 + x + x\<^sup>2 / 2 + x ^ 3 / 6 + x ^ 4 / 24 + x ^ 5 / 120"

section \<open>Arithmetic on finite numbers\<close>

lemma js_mul_Fin:
  "0 \<le> a \<Longrightarrow> 0 \<le> b \<Longrightarrow> js_mul (Fin a) (Fin b) = Fin (a * b)"
  by (auto simp: js_mul_def is_inf_def is_zero_def signed_zero_def)

lemma js_mul_Fin_pos:
  "0 < b \<Longrightarrow> js_mul (Fin a) (Fin b) = Fin (a * b)"
  by (auto simp: js_mul_def is_inf_def is_zero_def signed_zero_def)

lemma js_div_Fin:
  "0 < b \<Longrightarrow> js_div (Fin a) (Fin b) = Fin (a / b)"
  by (auto simp: js_div_def is_inf_def is_zero_def signed_zero_def)

lemma js_add_Fin: "js_add (Fin a) (Fin b) = Fin (a + b)"
  by (simp add: js_add_def is_inf_def)

lemma js_sub_Fin: "js_sub (Fin a) (Fin b) = Fin (a - b)"
  by (simp add: js_sub_def js_add_def is_inf_def)

lemma js_pow_Fin:
  "0 < b \<Longrightarrow> e \<noteq> 0 \<Longrightarrow> js_pow (Fin b) (Fin e) = Fin (b powr e)"
  by (simp add: js_pow_def is_zero_def)

lemma js_log_Fin: "0 < x \<Longrightarrow> js_log (Fin x) = Fin (ln x)"
  by simp

lemma js_sqrt_Fin: "0 \<le> x \<Longrightarrow> js_sqrt (Fin x) = Fin (sqrt x)"
  by simp

lemma js_strict_eq_Fin: "js_strict_eq (Fin a) (Fin b) = (a = b)"
  by (auto simp: js_strict_eq_def is_zero_def)

lemma js_strict_eq_one: "js_strict_eq N (Fin 1) = (N = Fin 1)"
  by (cases N) (auto simp: js_strict_eq_def is_zero_def)

lemma js_mul_commute: "js_mul a b = js_mul b a"
proof -
  have "(sign_neg a \<noteq> sign_neg b) = (sign_neg b \<noteq> sign_neg a)" by blast
  then show ?thesis
    unfolding js_mul_def by (simp add: mult.commute disj_commute)
qed

lemma js_div_100_2: "js_div (js_div d (Fin 100)) (Fin 2) = js_div d (Fin 200)"
  by (cases d) (auto simp: js_div_def is_inf_def is_zero_def signed_inf_def signed_zero_def)

subsection \<open>The fields of the result\<close>

lemma calc_req:
  "req (calculateInductanceMatrix p) =
     fst (equivalentRadiusStep (js_div (js_div (conductorDiameter p) (Fin 100)) (Fin 2))
            (js_div (bundleSpacing p) (Fin 100)) (numberOfBundles p))"
  unfolding calculateInductanceMatrix_def Let_def
  by (simp add: split_beta)

lemma calc_maxwellMatrix:
  "maxwellMatrix (calculateInductanceMatrix p) =
     (let P11 = selfCoefficient (height p) (req (calculateInductanceMatrix p));
          P12 = adjacentCoefficient (height p) (phaseSeparation p);
          P13 = outerCoefficient (height p) (phaseSeparation p)
      in [ [P11, P12, P13], [P12, P11, P12], [P13, P12, P11] ])"
  unfolding calculateInductanceMatrix_def Let_def selfCoefficient_def adjacentCoefficient_def
    outerCoefficient_def
  by (simp add: split_beta)

lemma calc_inductanceUntransposed:
  "inductanceUntransposed (calculateInductanceMatrix p) =
     map (map (\<lambda>v. js_mul v COEFFICIENT)) (maxwellMatrix (calculateInductanceMatrix p))"
  unfolding calculateInductanceMatrix_def Let_def
  by (simp add: split_beta)

lemma calc_selfInductance:
  "selfInductance (calculateInductanceMatrix p) =
     js_mul (selfCoefficient (height p) (req (calculateInductanceMatrix p))) COEFFICIENT"
  unfolding calculateInductanceMatrix_def Let_def selfCoefficient_def
  by (simp add: split_beta)

lemma calc_mutualInductanceAvg:
  "mutualInductanceAvg (calculateInductanceMatrix p) =
     js_mul (js_div (js_add (js_mul (Fin 2) (adjacentCoefficient (height p) (phaseSeparation p)))
                            (outerCoefficient (height p) (phaseSeparation p))) (Fin 3)) COEFFICIENT"
  unfolding calculateInductanceMatrix_def Let_def adjacentCoefficient_def outerCoefficient_def
  by (simp add: split_beta)

lemma calc_inductanceTransposed:
  "inductanceTransposed (calculateInductanceMatrix p) =
     (let Ls = selfInductance (calculateInductanceMatrix p);
          LmAvg = mutualInductanceAvg (calculateInductanceMatrix p)
      in [ [Ls, LmAvg, LmAvg], [LmAvg, Ls, LmAvg], [LmAvg, LmAvg, Ls] ])"
  unfolding calculateInductanceMatrix_def Let_def
  by (simp add: split_beta)

lemma index3: "i < (3::nat) \<longleftrightarrow> i = 0 \<or> i = 1 \<or> i = 2"
  by auto

lemma matrix_shapes:
  "length (maxwellMatrix (calculateInductanceMatrix p)) = 3"
  "\<forall>row \<in> set (maxwellMatrix (calculateInductanceMatrix p)). length row = 3"
  "length (inductanceUntransposed (calculateInductanceMatrix p)) = 3"
  "\<forall>row \<in> set (inductanceUntransposed (calculateInductanceMatrix p)). length row = 3"
  "length (inductanceTransposed (calculateInductanceMatrix p)) = 3"
  "\<forall>row \<in> set (inductanceTransposed (calculateInductanceMatrix p)). length row = 3"
  by (simp_all add: calc_inductanceUntransposed calc_maxwellMatrix calc_inductanceTransposed
      Let_def)

lemma scale_commute: "js_mul v COEFFICIENT = js_mul (Fin (2 / 10)) v"
  unfolding COEFFICIENT_def by (rule js_mul_commute)

lemma equivalentRadiusStep_single:
  "equivalentRadiusStep r B (Fin 1) = equivalentRadiusStep r B' (Fin 1)"
  by (simp add: equivalentRadiusStep_def js_strict_eq_Fin)

lemma req_single:
  "numberOfBundles p = Fin 1 \<Longrightarrow>
   req (calculateInductanceMatrix p) =
     js_mul (js_div (js_div (conductorDiameter p) (Fin 100)) (Fin 2)) (Fin (7788 / 10000))"
  by (simp add: calc_req equivalentRadiusStep_def js_strict_eq_Fin Let_def)

section \<open>The matrices\<close>

text \<open>
  Claim C8. The Maxwell coefficient matrix that \<open>calculateInductanceMatrix\<close> returns is
  symmetric: the entry in row \<open>i\<close>, column \<open>j\<close> is the entry in row \<open>j\<close>, column \<open>i\<close>,
  for all \<open>i\<close> and \<open>j\<close> in 0, 1, 2. It holds for every input, valid or not.
\<close>

theorem maxwellMatrix_symmetric:
  "\<forall>i<3. \<forall>j<3. maxwellMatrix (calculateInductanceMatrix p) ! i ! j
                = maxwellMatrix (calculateInductanceMatrix p) ! j ! i"
  by (auto simp: calc_maxwellMatrix Let_def index3)

theorem maxwellMatrix_symmetric_witness:
  "(0::nat) < 3 \<and> (2::nat) < 3
   \<and> maxwellMatrix (calculateInductanceMatrix defaultParams) ! 0 ! 2
     = maxwellMatrix (calculateInductanceMatrix defaultParams) ! 2 ! 0"
  using maxwellMatrix_symmetric [of defaultParams] by simp

text \<open>
  Claim C6. For every input, each entry of \<open>inductanceUntransposed\<close> is 0.2 times the
  entry of \<open>maxwellMatrix\<close> at the same place: one fixed factor, applied entry by entry.
  The source multiplies by the factor on the right; multiplication of numbers commutes.
\<close>

theorem inductanceUntransposed_scale:
  "\<forall>i<3. \<forall>j<3. inductanceUntransposed (calculateInductanceMatrix p) ! i ! j
                = js_mul (Fin (2 / 10)) (maxwellMatrix (calculateInductanceMatrix p) ! i ! j)"
  by (auto simp: calc_inductanceUntransposed calc_maxwellMatrix Let_def index3 scale_commute)

theorem inductanceUntransposed_scale_witness:
  "(0::nat) < 3 \<and> (1::nat) < 3
   \<and> inductanceUntransposed (calculateInductanceMatrix defaultParams) ! 0 ! 1
     = js_mul (Fin (2 / 10)) (maxwellMatrix (calculateInductanceMatrix defaultParams) ! 0 ! 1)"
  using inductanceUntransposed_scale [of defaultParams] by simp

section \<open>The equivalent radius of a single conductor\<close>



text \<open>
  Claim C10. Two inputs that both have \<open>numberOfBundles\<close> 1 and agree on height, phase
  separation and conductor diameter give the same result, whatever their bundle
  spacings: every field is the same, the recorded steps included.
\<close>

theorem bundleSpacing_irrelevant_single:
  assumes "numberOfBundles p = Fin 1" and "numberOfBundles q = Fin 1"
    and "height p = height q" and "phaseSeparation p = phaseSeparation q"
    and "conductorDiameter p = conductorDiameter q"
  shows "calculateInductanceMatrix p = calculateInductanceMatrix q"
  unfolding calculateInductanceMatrix_def Let_def
  using assms
  by (simp add: equivalentRadiusStep_single [of _ "js_div (bundleSpacing p) (Fin 100)"
        "js_div (bundleSpacing q) (Fin 100)"])

theorem bundleSpacing_irrelevant_single_witness:
  "calculateInductanceMatrix
     \<lparr>height = Fin 15, phaseSeparation = Fin 11, conductorDiameter = Fin (318 / 100),
      bundleSpacing = Fin (4572 / 100), numberOfBundles = Fin 1\<rparr>
   = calculateInductanceMatrix
     \<lparr>height = Fin 15, phaseSeparation = Fin 11, conductorDiameter = Fin (318 / 100),
      bundleSpacing = Fin 0, numberOfBundles = Fin 1\<rparr>"
  by (rule bundleSpacing_irrelevant_single) simp_all

section \<open>The equivalent radius of a bundle\<close>

lemma req_bundle:
  assumes n: "numberOfBundles p = Fin (real n)" and n2: "2 \<le> n"
    and b: "bundleSpacing p = Fin b" and b0: "0 < b"
    and d: "conductorDiameter p = Fin d" and d0: "0 \<le> d"
  shows "req (calculateInductanceMatrix p) = Fin (bundleRadius n (d / 200) (b / 100))"
proof -
  let ?r = "d / 200" and ?B = "b / 100"
  have r: "js_div (js_div (conductorDiameter p) (Fin 100)) (Fin 2) = Fin ?r"
    using d d0 by (simp add: js_div_100_2 js_div_Fin)
  have B: "js_div (bundleSpacing p) (Fin 100) = Fin ?B"
    using b b0 by (simp add: js_div_Fin)
  have branch: "\<not> (js_strict_eq (Fin (real n)) (Fin 1) \<or> js_strict_eq (Fin ?B) (Fin 0))"
    using n2 b0 by (simp add: js_strict_eq_Fin)
  have e: "js_sub (Fin (real n)) (Fin 1) = Fin (real (n - 1))"
    using n2 by (simp add: js_sub_Fin)
  have "js_pow (Fin ?B) (Fin (real (n - 1))) = Fin (?B powr real (n - 1))"
    using n2 b0 by (intro js_pow_Fin) simp_all
  also have "?B powr real (n - 1) = ?B ^ (n - 1)"
    using b0 by (simp add: powr_realpow)
  finally have pw: "js_pow (Fin ?B) (Fin (real (n - 1))) = Fin (?B ^ (n - 1))" .
  let ?product = "real n * ?r * ?B ^ (n - 1)"
  have prod: "js_mul (js_mul (Fin (real n)) (Fin ?r)) (Fin (?B ^ (n - 1))) = Fin ?product"
    using d0 b0 by (simp add: js_mul_Fin)
  have inv: "js_div (Fin 1) (Fin (real n)) = Fin (1 / real n)"
    using n2 by (intro js_div_Fin) simp_all
  have root: "js_pow (Fin ?product) (Fin (1 / real n)) = Fin (root n ?product)"
  proof (cases "d = 0")
    case True
    then show ?thesis using n2 by (simp add: js_pow_def is_zero_def)
  next
    case False
    with d0 b0 n2 have pos: "0 < ?product" by simp
    have "js_pow (Fin ?product) (Fin (1 / real n)) = Fin (?product powr (1 / real n))"
      using pos n2 by (intro js_pow_Fin) simp_all
    also have "?product powr (1 / real n) = root n ?product"
      using pos n2 by (simp add: root_powr_inverse)
    finally show ?thesis .
  qed
  have "req (calculateInductanceMatrix p)
        = fst (equivalentRadiusStep (Fin ?r) (Fin ?B) (Fin (real n)))"
    by (simp only: calc_req r B n)
  also have "\<dots> = js_pow (js_mul (js_mul (Fin (real n)) (Fin ?r))
                       (js_pow (Fin ?B) (js_sub (Fin (real n)) (Fin 1))))
                     (js_div (Fin 1) (Fin (real n)))"
    unfolding equivalentRadiusStep_def using branch by (simp add: Let_def)
  also have "\<dots> = Fin (root n ?product)"
    by (simp only: e pw prod inv root)
  finally show ?thesis by (simp add: bundleRadius_def)
qed



section \<open>The single conductor against the plain radius\<close>





section \<open>Valid inputs\<close>



lemma positiveE:
  assumes "positive a"
  obtains x where "a = Fin x" and "0 < x"
  using assms by (cases a) simp_all




lemma selfCoefficient_Fin:
  assumes "0 < h" and "0 < \<rho>"
  shows "selfCoefficient (Fin h) (Fin \<rho>) = Fin (ln (2 * h / \<rho>))"
proof -
  have "js_div (js_mul (Fin 2) (Fin h)) (Fin \<rho>) = Fin (2 * h / \<rho>)"
    using assms by (simp add: js_mul_Fin js_div_Fin)
  moreover have "0 < 2 * h / \<rho>" using assms by simp
  ultimately show ?thesis
    unfolding selfCoefficient_def by (simp only: js_log_Fin)
qed

lemma adjacentCoefficient_Fin:
  assumes "0 < h" and "0 < s"
  shows "adjacentCoefficient (Fin h) (Fin s) = Fin (ln (sqrt (4 * h * h + s * s) / s))"
proof -
  have pos: "0 < 4 * h * h + s * s" using assms by (simp add: add_pos_pos)
  then have root: "0 < sqrt (4 * h * h + s * s)" by simp
  have "js_add (js_mul (js_mul (Fin 4) (Fin h)) (Fin h)) (js_mul (Fin s) (Fin s))
        = Fin (4 * h * h + s * s)"
    using assms by (simp add: js_mul_Fin js_add_Fin)
  then have "js_div (js_sqrt (js_add (js_mul (js_mul (Fin 4) (Fin h)) (Fin h))
                                     (js_mul (Fin s) (Fin s)))) (Fin s)
             = Fin (sqrt (4 * h * h + s * s) / s)"
    using pos root assms(2) by (simp add: js_div_Fin)
  moreover have "0 < sqrt (4 * h * h + s * s) / s"
    using root assms(2) by simp
  ultimately show ?thesis
    unfolding adjacentCoefficient_def by (simp only: js_log_Fin)
qed

lemma outerCoefficient_Fin:
  assumes "0 < h" and "0 < s"
  shows "outerCoefficient (Fin h) (Fin s) = Fin (ln (sqrt (4 * h * h + 4 * s * s) / (2 * s)))"
proof -
  have pos: "0 < 4 * h * h + 4 * s * s" using assms by (simp add: add_pos_pos)
  then have root: "0 < sqrt (4 * h * h + 4 * s * s)" by simp
  have "js_add (js_mul (js_mul (Fin 4) (Fin h)) (Fin h)) (js_mul (js_mul (Fin 4) (Fin s)) (Fin s))
        = Fin (4 * h * h + 4 * s * s)"
    using assms by (simp add: js_mul_Fin js_add_Fin)
  moreover have "js_mul (Fin 2) (Fin s) = Fin (2 * s)"
    using assms(2) by (simp add: js_mul_Fin)
  ultimately have "js_div (js_sqrt (js_add (js_mul (js_mul (Fin 4) (Fin h)) (Fin h))
                                     (js_mul (js_mul (Fin 4) (Fin s)) (Fin s))))
                          (js_mul (Fin 2) (Fin s))
             = Fin (sqrt (4 * h * h + 4 * s * s) / (2 * s))"
    using pos root assms(2) by (simp add: js_div_Fin)
  moreover have "0 < sqrt (4 * h * h + 4 * s * s) / (2 * s)"
    using root assms(2) by simp
  ultimately show ?thesis
    unfolding outerCoefficient_def by (simp only: js_log_Fin)
qed


lemma valid_defaultParams: "valid_params defaultParams"
  by (simp add: valid_params_def defaultParams_def)


section \<open>Height and self inductance\<close>



section \<open>The transposed matrix\<close>

lemma mutual_valid:
  assumes "valid_params p"
  obtains a b where "adjacentCoefficient (height p) (phaseSeparation p) = Fin a"
    and "outerCoefficient (height p) (phaseSeparation p) = Fin b"
    and "mutualInductanceAvg (calculateInductanceMatrix p) = Fin (2 / 10 * (2 * a + b) / 3)"
proof -
  from assms obtain h where h: "height p = Fin h" "0 < h"
    unfolding valid_params_def by (auto elim: positiveE)
  from assms obtain s where s: "phaseSeparation p = Fin s" "0 < s"
    unfolding valid_params_def by (auto elim: positiveE)
  let ?a = "ln (sqrt (4 * h * h + s * s) / s)"
  let ?b = "ln (sqrt (4 * h * h + 4 * s * s) / (2 * s))"
  have a: "adjacentCoefficient (height p) (phaseSeparation p) = Fin ?a"
    unfolding h s by (rule adjacentCoefficient_Fin [OF h(2) s(2)])
  have b: "outerCoefficient (height p) (phaseSeparation p) = Fin ?b"
    unfolding h s by (rule outerCoefficient_Fin [OF h(2) s(2)])
  have "js_mul (Fin 2) (Fin ?a) = Fin (?a * 2)"
    by (subst js_mul_commute) (rule js_mul_Fin_pos, simp)
  then have "js_mul (js_div (js_add (js_mul (Fin 2) (Fin ?a)) (Fin ?b)) (Fin 3)) (Fin (2 / 10))
             = Fin ((?a * 2 + ?b) / 3 * (2 / 10))"
    by (simp only: js_add_Fin js_div_Fin js_mul_Fin_pos zero_less_numeral
        zero_less_divide_iff simp_thms)
  then have "mutualInductanceAvg (calculateInductanceMatrix p) = Fin (2 / 10 * (2 * ?a + ?b) / 3)"
    unfolding calc_mutualInductanceAvg a b COEFFICIENT_def by (simp add: mult.commute)
  with a b show thesis by (rule that)
qed

text \<open>
  Claim C7. In \<open>inductanceTransposed\<close> every diagonal entry is \<open>selfInductance\<close> and every
  other entry is \<open>mutualInductanceAvg\<close>, and \<open>mutualInductanceAvg\<close> is 0.2 times the mean
  \<open>(2 P12 + P13) / 3\<close> of the mutual Maxwell coefficients, \<open>P12\<close> and \<open>P13\<close> being the
  entries of \<open>maxwellMatrix\<close> in row 0. Both hold for every input in the arithmetic of
  numbers; for a valid input the coefficients are finite and the average is the real
  number \<open>0.2 (2 P12 + P13) / 3\<close>.
\<close>

theorem inductanceTransposed_entries:
  "(\<forall>i<3. \<forall>j<3. inductanceTransposed (calculateInductanceMatrix p) ! i ! j
        = (if i = j then selfInductance (calculateInductanceMatrix p)
           else mutualInductanceAvg (calculateInductanceMatrix p)))
   \<and> mutualInductanceAvg (calculateInductanceMatrix p)
       = js_mul (Fin (2 / 10))
           (js_div (js_add (js_mul (Fin 2) (maxwellMatrix (calculateInductanceMatrix p) ! 0 ! 1))
                           (maxwellMatrix (calculateInductanceMatrix p) ! 0 ! 2)) (Fin 3))
   \<and> (valid_params p \<longrightarrow>
        (\<exists>a b. maxwellMatrix (calculateInductanceMatrix p) ! 0 ! 1 = Fin a
             \<and> maxwellMatrix (calculateInductanceMatrix p) ! 0 ! 2 = Fin b
             \<and> mutualInductanceAvg (calculateInductanceMatrix p) = Fin (2 / 10 * (2 * a + b) / 3)))"
proof (intro conjI impI)
  show "\<forall>i<3. \<forall>j<3. inductanceTransposed (calculateInductanceMatrix p) ! i ! j
        = (if i = j then selfInductance (calculateInductanceMatrix p)
           else mutualInductanceAvg (calculateInductanceMatrix p))"
    by (auto simp: calc_inductanceTransposed Let_def index3)
  show "mutualInductanceAvg (calculateInductanceMatrix p)
       = js_mul (Fin (2 / 10))
           (js_div (js_add (js_mul (Fin 2) (maxwellMatrix (calculateInductanceMatrix p) ! 0 ! 1))
                           (maxwellMatrix (calculateInductanceMatrix p) ! 0 ! 2)) (Fin 3))"
    by (simp add: calc_mutualInductanceAvg calc_maxwellMatrix Let_def scale_commute)
  assume "valid_params p"
  then obtain a b where "adjacentCoefficient (height p) (phaseSeparation p) = Fin a"
    and "outerCoefficient (height p) (phaseSeparation p) = Fin b"
    and "mutualInductanceAvg (calculateInductanceMatrix p) = Fin (2 / 10 * (2 * a + b) / 3)"
    by (rule mutual_valid)
  then show "\<exists>a b. maxwellMatrix (calculateInductanceMatrix p) ! 0 ! 1 = Fin a
             \<and> maxwellMatrix (calculateInductanceMatrix p) ! 0 ! 2 = Fin b
             \<and> mutualInductanceAvg (calculateInductanceMatrix p) = Fin (2 / 10 * (2 * a + b) / 3)"
    by (simp add: calc_maxwellMatrix Let_def)
qed

theorem inductanceTransposed_entries_witness:
  "(0::nat) < 3 \<and> (1::nat) < 3 \<and> valid_params defaultParams
   \<and> inductanceTransposed (calculateInductanceMatrix defaultParams) ! 0 ! 0
       = selfInductance (calculateInductanceMatrix defaultParams)
   \<and> inductanceTransposed (calculateInductanceMatrix defaultParams) ! 0 ! 1
       = mutualInductanceAvg (calculateInductanceMatrix defaultParams)
   \<and> (\<exists>a b. maxwellMatrix (calculateInductanceMatrix defaultParams) ! 0 ! 1 = Fin a
            \<and> maxwellMatrix (calculateInductanceMatrix defaultParams) ! 0 ! 2 = Fin b
            \<and> mutualInductanceAvg (calculateInductanceMatrix defaultParams)
                = Fin (2 / 10 * (2 * a + b) / 3))"
proof -
  note entries = inductanceTransposed_entries [of defaultParams]
  have valid: "valid_params defaultParams" by (rule valid_defaultParams)
  from entries [THEN conjunct1] entries [THEN conjunct2, THEN conjunct2, THEN mp, OF valid] valid
  show ?thesis by simp
qed

section \<open>Degenerate geometry\<close>







text \<open>
  The other two degenerate inputs the claim names are returned as results in the same
  way: a zero height gives the self inductance \<open>-Infinity\<close>, a zero conductor diameter
  the equivalent radius 0 and the self inductance \<open>Infinity\<close>.
\<close>

lemma zero_height_returns_neg_infinity:
  assumes "height p = Fin 0" and "req (calculateInductanceMatrix p) = Fin \<rho>" and "0 < \<rho>"
  shows "selfInductance (calculateInductanceMatrix p) = NegInf"
proof -
  have "js_div (js_mul (Fin 2) (Fin 0)) (Fin \<rho>) = Fin 0"
    using assms(3) by (simp add: js_mul_Fin js_div_Fin)
  then have "selfCoefficient (Fin 0) (Fin \<rho>) = NegInf"
    unfolding selfCoefficient_def by simp
  then show ?thesis
    unfolding calc_selfInductance assms(1,2)
    by (simp add: js_mul_def is_inf_def is_zero_def signed_inf_def COEFFICIENT_def)
qed

lemma zero_diameter_returns_infinity:
  assumes "numberOfBundles p = Fin 1" and "conductorDiameter p = Fin 0"
    and "height p = Fin h" and "0 < h"
  shows "req (calculateInductanceMatrix p) = Fin 0"
    and "selfInductance (calculateInductanceMatrix p) = PosInf"
proof -
  show r: "req (calculateInductanceMatrix p) = Fin 0"
    using assms(1,2) by (simp add: req_single js_div_100_2 js_div_Fin js_mul_Fin)
  have "js_div (js_mul (Fin 2) (Fin h)) (Fin 0) = PosInf"
    using assms(4) by (simp add: js_mul_Fin js_div_def is_inf_def is_zero_def signed_inf_def)
  then have "selfCoefficient (Fin h) (Fin 0) = PosInf"
    unfolding selfCoefficient_def by simp
  then show "selfInductance (calculateInductanceMatrix p) = PosInf"
    unfolding calc_selfInductance assms(3) r
    by (simp add: js_mul_def is_inf_def is_zero_def signed_inf_def COEFFICIENT_def)
qed

section \<open>Bounds on the exponential and the logarithm\<close>

lemma exp_taylor_lower:
  fixes x :: real
  assumes "0 \<le> x"
  shows "(\<Sum>k<n. x ^ k / fact k) \<le> exp x"
proof -
  obtain t where t: "exp x = (\<Sum>m<n. x ^ m / fact m) + exp t / fact n * x ^ n"
    using Maclaurin_exp_le [of x n] by blast
  have "0 \<le> exp t / fact n * x ^ n"
    using assms by simp
  with t show ?thesis by linarith
qed

lemma exp_taylor_upper:
  fixes x :: real
  assumes "0 \<le> x" and "x ^ n / fact n < 1"
  shows "exp x \<le> (\<Sum>k<n. x ^ k / fact k) / (1 - x ^ n / fact n)"
proof -
  obtain t where tx: "\<bar>t\<bar> \<le> \<bar>x\<bar>"
    and t: "exp x = (\<Sum>m<n. x ^ m / fact m) + exp t / fact n * x ^ n"
    using Maclaurin_exp_le [of x n] by blast
  have "exp t \<le> exp x" using tx assms(1) by simp
  then have "exp t * (x ^ n / fact n) \<le> exp x * (x ^ n / fact n)"
    using assms(1) by (intro mult_right_mono) simp_all
  with t have "exp x \<le> (\<Sum>m<n. x ^ m / fact m) + exp x * (x ^ n / fact n)"
    by simp
  then have "exp x * (1 - x ^ n / fact n) \<le> (\<Sum>m<n. x ^ m / fact m)"
    by (simp add: right_diff_distrib)
  then show ?thesis
    using assms(2) by (simp add: pos_le_divide_eq)
qed

lemma exp_poly_sum: "(\<Sum>k<6. x ^ k / fact k) = exp_poly x"
  by (simp add: exp_poly_def eval_nat_numeral algebra_simps)

lemma fact_6: "fact 6 = (720::real)"
  by (simp add: eval_nat_numeral)

lemma exp_poly_lower:
  assumes "0 \<le> x" and "l \<le> exp_poly x"
  shows "l \<le> exp x"
  using exp_taylor_lower [OF assms(1), of 6] assms(2) by (simp only: exp_poly_sum)

lemma exp_poly_upper:
  assumes "0 \<le> x" and "x ^ 6 / 720 < 1" and "exp_poly x / (1 - x ^ 6 / 720) \<le> u"
  shows "exp x \<le> u"
proof -
  have "x ^ 6 / fact 6 < 1" using assms(2) by (simp only: fact_6)
  from exp_taylor_upper [OF assms(1) this]
  have "exp x \<le> exp_poly x / (1 - x ^ 6 / 720)" by (simp only: exp_poly_sum fact_6)
  with assms(3) show ?thesis by linarith
qed

lemma exp_upper_double:
  fixes x :: real
  assumes "exp x \<le> u" and "y = 2 * x" and "u * u \<le> v"
  shows "exp y \<le> v"
proof -
  have "exp y = exp x * exp x" using assms(2) by (simp add: exp_add [symmetric])
  also have "\<dots> \<le> u * u"
  proof (intro mult_mono)
    have "0 \<le> exp x" by simp
    with assms(1) show "0 \<le> u" by linarith
  qed (use assms(1) in simp_all)
  finally show ?thesis using assms(3) by linarith
qed

lemma exp_lower_double:
  fixes x :: real
  assumes "l \<le> exp x" and "y = 2 * x" and "0 \<le> l" and "v \<le> l * l"
  shows "v \<le> exp y"
proof -
  have "l * l \<le> exp x * exp x" using assms(1,3) by (intro mult_mono) simp_all
  also have "\<dots> = exp y" using assms(2) by (simp add: exp_add [symmetric])
  finally show ?thesis using assms(4) by linarith
qed

lemma ln_less_of_exp:
  fixes y :: real
  assumes "0 < y" and "y < l" and "l \<le> exp c"
  shows "ln y < c"
proof -
  have "exp (ln y) < exp c" using assms by simp
  then show ?thesis by (simp only: exp_less_cancel_iff)
qed

lemma ln_ge_of_exp:
  fixes y :: real
  assumes "0 < y" and "exp c \<le> u" and "u \<le> y"
  shows "c \<le> ln y"
proof -
  have "exp c \<le> y" using assms(2,3) by linarith
  then show ?thesis using assms(1) by (simp add: ln_ge_iff)
qed

lemma ln_adjacent_lower: "4265 / 2000 \<le> ln (1021 / 121 :: real)"
proof -
  have "exp_poly (4265 / 16000) / (1 - (4265 / 16000) ^ 6 / 720) \<le> (1305469312 / 1000000000 :: real)"
    by (simp add: exp_poly_def power_divide)
  then have e0: "exp (4265 / 16000) \<le> (1305469312 / 1000000000 :: real)"
    by (rule exp_poly_upper [rotated 2]) (simp_all add: power_divide)
  have e1: "exp (4265 / 8000) \<le> (1704250125 / 1000000000 :: real)"
    by (rule exp_upper_double [OF e0]) simp_all
  have e2: "exp (4265 / 4000) \<le> (2904468489 / 1000000000 :: real)"
    by (rule exp_upper_double [OF e1]) simp_all
  have e3: "exp (4265 / 2000) \<le> (8435937204 / 1000000000 :: real)"
    by (rule exp_upper_double [OF e2]) simp_all
  show ?thesis
    by (rule ln_ge_of_exp [OF _ e3]) simp_all
qed

lemma ln_adjacent_upper: "ln (1021 / 121 :: real) < 2133 / 1000"
proof -
  have "(1305550254 / 1000000000 :: real) \<le> exp_poly (2133 / 8000)"
    by (simp add: exp_poly_def power_divide)
  then have e0: "(1305550254 / 1000000000 :: real) \<le> exp (2133 / 8000)"
    by (rule exp_poly_lower [rotated]) simp
  have e1: "(1704461465 / 1000000000 :: real) \<le> exp (2133 / 4000)"
    by (rule exp_lower_double [OF e0]) simp_all
  have e2: "(2905188885 / 1000000000 :: real) \<le> exp (2133 / 2000)"
    by (rule exp_lower_double [OF e1]) simp_all
  have e3: "(8440122457 / 1000000000 :: real) \<le> exp (2133 / 1000)"
    by (rule exp_lower_double [OF e2]) simp_all
  show ?thesis
    by (rule ln_less_of_exp [OF _ _ e3]) simp_all
qed

lemma ln_outer_lower: "2101 / 2000 \<le> ln (1384 / 484 :: real)"
proof -
  have "exp_poly (2101 / 8000) / (1 - (2101 / 8000) ^ 6 / 720) \<le> (1300339120 / 1000000000 :: real)"
    by (simp add: exp_poly_def power_divide)
  then have e0: "exp (2101 / 8000) \<le> (1300339120 / 1000000000 :: real)"
    by (rule exp_poly_upper [rotated 2]) (simp_all add: power_divide)
  have e1: "exp (2101 / 4000) \<le> (1690881828 / 1000000000 :: real)"
    by (rule exp_upper_double [OF e0]) simp_all
  have e2: "exp (2101 / 2000) \<le> (2859081357 / 1000000000 :: real)"
    by (rule exp_upper_double [OF e1]) simp_all
  show ?thesis
    by (rule ln_ge_of_exp [OF _ e2]) simp_all
qed

lemma ln_outer_upper: "ln (1384 / 484 :: real) < 1051 / 1000"
proof -
  have "(1300501078 / 1000000000 :: real) \<le> exp_poly (1051 / 4000)"
    by (simp add: exp_poly_def power_divide)
  then have e0: "(1300501078 / 1000000000 :: real) \<le> exp (1051 / 4000)"
    by (rule exp_poly_lower [rotated]) simp
  have e1: "(1691303053 / 1000000000 :: real) \<le> exp (1051 / 2000)"
    by (rule exp_lower_double [OF e0]) simp_all
  have e2: "(2860506017 / 1000000000 :: real) \<le> exp (1051 / 1000)"
    by (rule exp_lower_double [OF e1]) simp_all
  show ?thesis
    by (rule ln_less_of_exp [OF _ _ e2]) simp_all
qed

lemma ln_self_lower: "11033 / 1000 \<le> ln (900 / (1453896 / 100000000) :: real)"
proof -
  have "exp_poly (11033 / 32000) / (1 - (11033 / 32000) ^ 6 / 720) \<le> (1411681922 / 1000000000 :: real)"
    by (simp add: exp_poly_def power_divide)
  then have e0: "exp (11033 / 32000) \<le> (1411681922 / 1000000000 :: real)"
    by (rule exp_poly_upper [rotated 2]) (simp_all add: power_divide)
  have e1: "exp (11033 / 16000) \<le> (1992845849 / 1000000000 :: real)"
    by (rule exp_upper_double [OF e0]) simp_all
  have e2: "exp (11033 / 8000) \<le> (3971434578 / 1000000000 :: real)"
    by (rule exp_upper_double [OF e1]) simp_all
  have e3: "exp (11033 / 4000) \<le> (15772292608 / 1000000000 :: real)"
    by (rule exp_upper_double [OF e2]) simp_all
  have e4: "exp (11033 / 2000) \<le> (248765214113 / 1000000000 :: real)"
    by (rule exp_upper_double [OF e3]) simp_all
  have e5: "exp (11033 / 1000) \<le> (61884131752687 / 1000000000 :: real)"
    by (rule exp_upper_double [OF e4]) simp_all
  show ?thesis
    by (rule ln_ge_of_exp [OF _ e5]) simp_all
qed

lemma ln_self_upper: "ln (900 / (1453896 / 100000000) :: real) < 11035 / 1000"
proof -
  have "(1411766857 / 1000000000 :: real) \<le> exp_poly (11035 / 32000)"
    by (simp add: exp_poly_def power_divide)
  then have e0: "(1411766857 / 1000000000 :: real) \<le> exp (11035 / 32000)"
    by (rule exp_poly_lower [rotated]) simp
  have e1: "(1993085658 / 1000000000 :: real) \<le> exp (11035 / 16000)"
    by (rule exp_lower_double [OF e0]) simp_all
  have e2: "(3972390440 / 1000000000 :: real) \<le> exp (11035 / 8000)"
    by (rule exp_lower_double [OF e1]) simp_all
  have e3: "(15779885807 / 1000000000 :: real) \<le> exp (11035 / 4000)"
    by (rule exp_lower_double [OF e2]) simp_all
  have e4: "(249004796081 / 1000000000 :: real) \<le> exp (11035 / 2000)"
    by (rule exp_lower_double [OF e3]) simp_all
  have e5: "(62003388471340 / 1000000000 :: real) \<le> exp (11035 / 1000)"
    by (rule exp_lower_double [OF e4]) simp_all
  show ?thesis
    by (rule ln_less_of_exp [OF _ _ e5]) simp_all
qed

section \<open>The default parameters\<close>

lemma ln_sqrt_ratio:
  assumes "0 < a" and "0 < b"
  shows "ln (sqrt a / b) = ln (a / (b * b)) / 2"
proof -
  have "sqrt (a / (b * b)) = sqrt a / b"
    using assms(2) by (simp add: real_sqrt_divide real_sqrt_mult)
  moreover have "ln (sqrt (a / (b * b))) = ln (a / (b * b)) / 2"
    using assms by (intro ln_sqrt) simp
  ultimately show ?thesis by simp
qed

lemma ln_ratio_sqrt:
  assumes "0 < a" and "0 < b"
  shows "ln (a / sqrt b) = ln (a * a / b) / 2"
proof -
  have "sqrt (a * a / b) = a / sqrt b"
    using assms(1) by (simp add: real_sqrt_divide real_sqrt_mult)
  moreover have "ln (sqrt (a * a / b)) = ln (a * a / b) / 2"
    using assms by (intro ln_sqrt) simp
  ultimately show ?thesis by simp
qed

lemma default_req:
  "req (calculateInductanceMatrix defaultParams) = Fin (sqrt (1453896 / 100000000))"
proof -
  have "req (calculateInductanceMatrix defaultParams)
        = Fin (bundleRadius 2 (318 / 100 / 200) (4572 / 100 / 100))"
    by (rule req_bundle) (simp_all add: defaultParams_def)
  then show ?thesis by (simp add: bundleRadius_def sqrt_def)
qed

lemma default_req_bounds:
  "12057 / 100000 < sqrt (1453896 / 100000000 :: real)"
  "sqrt (1453896 / 100000000 :: real) < 12058 / 100000"
  by (rule real_less_rsqrt, simp add: power2_eq_square)
     (rule real_less_lsqrt, simp_all add: power2_eq_square)

lemma default_P11:
  "selfCoefficient (Fin 15) (Fin (sqrt (1453896 / 100000000)))
   = Fin (ln (900 / (1453896 / 100000000)) / 2)"
proof -
  have "selfCoefficient (Fin 15) (Fin (sqrt (1453896 / 100000000)))
        = Fin (ln (2 * 15 / sqrt (1453896 / 100000000)))"
    by (rule selfCoefficient_Fin) simp_all
  also have "ln (2 * 15 / sqrt (1453896 / 100000000 :: real))
             = ln (30 * 30 / (1453896 / 100000000)) / 2"
    using ln_ratio_sqrt [of 30 "1453896 / 100000000"] by simp
  finally show ?thesis by simp
qed

lemma default_P12:
  "adjacentCoefficient (Fin 15) (Fin 11) = Fin (ln (1021 / 121) / 2)"
proof -
  have "adjacentCoefficient (Fin 15) (Fin 11)
        = Fin (ln (sqrt (4 * 15 * 15 + 11 * 11) / 11))"
    by (rule adjacentCoefficient_Fin) simp_all
  also have "ln (sqrt (4 * 15 * 15 + 11 * 11) / 11 :: real) = ln (1021 / (11 * 11)) / 2"
    using ln_sqrt_ratio [of 1021 11] by simp
  finally show ?thesis by simp
qed

lemma default_P13:
  "outerCoefficient (Fin 15) (Fin 11) = Fin (ln (1384 / 484) / 2)"
proof -
  have "outerCoefficient (Fin 15) (Fin 11)
        = Fin (ln (sqrt (4 * 15 * 15 + 4 * 11 * 11) / (2 * 11)))"
    by (rule outerCoefficient_Fin) simp_all
  also have "ln (sqrt (4 * 15 * 15 + 4 * 11 * 11) / (2 * 11) :: real) = ln (1384 / (22 * 22)) / 2"
    using ln_sqrt_ratio [of 1384 22] by simp
  finally show ?thesis by simp
qed

lemma default_maxwellMatrix:
  "maxwellMatrix (calculateInductanceMatrix defaultParams) =
     [ [Fin (ln (900 / (1453896 / 100000000)) / 2), Fin (ln (1021 / 121) / 2), Fin (ln (1384 / 484) / 2)],
      [Fin (ln (1021 / 121) / 2), Fin (ln (900 / (1453896 / 100000000)) / 2), Fin (ln (1021 / 121) / 2)],
      [Fin (ln (1384 / 484) / 2), Fin (ln (1021 / 121) / 2), Fin (ln (900 / (1453896 / 100000000)) / 2)] ]"
proof -
  have h: "height defaultParams = Fin 15" and s: "phaseSeparation defaultParams = Fin 11"
    by (simp_all add: defaultParams_def)
  show ?thesis
    unfolding calc_maxwellMatrix Let_def default_req h s default_P11 default_P12 default_P13
    by (rule refl)
qed

lemma default_selfInductance:
  "selfInductance (calculateInductanceMatrix defaultParams)
   = Fin (ln (900 / (1453896 / 100000000)) / 2 * (2 / 10))"
proof -
  have h: "height defaultParams = Fin 15"
    by (simp add: defaultParams_def)
  show ?thesis
    unfolding calc_selfInductance default_req h default_P11 COEFFICIENT_def
    by (rule js_mul_Fin_pos) simp
qed

lemma default_mutualInductanceAvg:
  "mutualInductanceAvg (calculateInductanceMatrix defaultParams)
   = Fin ((2 * (ln (1021 / 121) / 2) + ln (1384 / 484) / 2) / 3 * (2 / 10))"
proof -
  have h: "height defaultParams = Fin 15" and s: "phaseSeparation defaultParams = Fin 11"
    by (simp_all add: defaultParams_def)
  have "js_mul (Fin 2) (Fin (ln (1021 / 121) / 2)) = Fin (ln (1021 / 121) / 2 * 2)"
    by (subst js_mul_commute) (rule js_mul_Fin_pos, simp)
  then have "js_mul (js_div (js_add (js_mul (Fin 2) (Fin (ln (1021 / 121) / 2)))
                 (Fin (ln (1384 / 484) / 2))) (Fin 3)) (Fin (2 / 10))
        = Fin ((ln (1021 / 121) / 2 * 2 + ln (1384 / 484) / 2) / 3 * (2 / 10))"
    by (simp only: js_add_Fin js_div_Fin js_mul_Fin_pos zero_less_numeral
        zero_less_divide_iff simp_thms)
  then show ?thesis
    unfolding calc_mutualInductanceAvg h s default_P12 default_P13 COEFFICIENT_def
    by (simp add: mult.commute)
qed

lemma default_bounds:
  "55165 / 10000 \<le> ln (900 / (1453896 / 100000000) :: real) / 2"
  "ln (900 / (1453896 / 100000000) :: real) / 2 < 55175 / 10000"
  "106625 / 100000 \<le> ln (1021 / 121 :: real) / 2"
  "ln (1021 / 121 :: real) / 2 < 10665 / 10000"
  "52525 / 100000 \<le> ln (1384 / 484 :: real) / 2"
  "ln (1384 / 484 :: real) / 2 < 5255 / 10000"
  using ln_self_lower ln_self_upper ln_adjacent_lower ln_adjacent_upper
    ln_outer_lower ln_outer_upper
  by linarith+

text \<open>
  Claim C2 says that on the default parameters the solver reproduces, to three decimal
  places, the equivalent radius 0.1206, \<open>P11 = 5.517\<close>, \<open>P12 = 1.067\<close>, \<open>P13 = 0.526\<close>,
  the self inductance 1.103 and the average mutual inductance 0.178. It does not:
  \<open>P12\<close> is below 1.0665 and rounds to 1.066.
\<close>

theorem default_example_not_reproduced:
  "\<not> (agrees_3dp (req (calculateInductanceMatrix defaultParams)) (1206 / 10000)
      \<and> agrees_3dp (maxwellMatrix (calculateInductanceMatrix defaultParams) ! 0 ! 0) (5517 / 1000)
      \<and> agrees_3dp (maxwellMatrix (calculateInductanceMatrix defaultParams) ! 0 ! 1) (1067 / 1000)
      \<and> agrees_3dp (maxwellMatrix (calculateInductanceMatrix defaultParams) ! 0 ! 2) (526 / 1000)
      \<and> agrees_3dp (selfInductance (calculateInductanceMatrix defaultParams)) (1103 / 1000)
      \<and> agrees_3dp (mutualInductanceAvg (calculateInductanceMatrix defaultParams)) (178 / 1000))"
  using default_bounds(4) by (simp add: default_maxwellMatrix)

text \<open>
  Claim C2, amended. On the default parameters the solver gives, to three decimal
  places, the equivalent radius 0.1206, \<open>P11 = 5.517\<close>, \<open>P12 = 1.066\<close>, \<open>P13 = 0.525\<close>,
  the self inductance 1.103 and the average mutual inductance 0.177.
\<close>

theorem default_example_values:
  "agrees_3dp (req (calculateInductanceMatrix defaultParams)) (1206 / 10000)
   \<and> agrees_3dp (maxwellMatrix (calculateInductanceMatrix defaultParams) ! 0 ! 0) (5517 / 1000)
   \<and> agrees_3dp (maxwellMatrix (calculateInductanceMatrix defaultParams) ! 0 ! 1) (1066 / 1000)
   \<and> agrees_3dp (maxwellMatrix (calculateInductanceMatrix defaultParams) ! 0 ! 2) (525 / 1000)
   \<and> agrees_3dp (selfInductance (calculateInductanceMatrix defaultParams)) (1103 / 1000)
   \<and> agrees_3dp (mutualInductanceAvg (calculateInductanceMatrix defaultParams)) (177 / 1000)"
proof (intro conjI)
  show "agrees_3dp (req (calculateInductanceMatrix defaultParams)) (1206 / 10000)"
    using default_req_bounds by (simp add: default_req)
  show "agrees_3dp (maxwellMatrix (calculateInductanceMatrix defaultParams) ! 0 ! 0) (5517 / 1000)"
    using default_bounds(1,2) by (simp add: default_maxwellMatrix)
  show "agrees_3dp (maxwellMatrix (calculateInductanceMatrix defaultParams) ! 0 ! 1) (1066 / 1000)"
    using default_bounds(3,4) by (simp add: default_maxwellMatrix)
  show "agrees_3dp (maxwellMatrix (calculateInductanceMatrix defaultParams) ! 0 ! 2) (525 / 1000)"
    using default_bounds(5,6) by (simp add: default_maxwellMatrix)
  show "agrees_3dp (selfInductance (calculateInductanceMatrix defaultParams)) (1103 / 1000)"
    using default_bounds(1,2) by (simp add: default_selfInductance)
  show "agrees_3dp (mutualInductanceAvg (calculateInductanceMatrix defaultParams)) (177 / 1000)"
    using default_bounds(3,4,5,6) by (simp add: default_mutualInductanceAvg)
qed

text \<open>
  The numerals of the worked example are nevertheless close: each of the six computed
  values differs from the numeral given for it by less than one unit of the third
  decimal place.
\<close>

lemma default_example_within_a_thousandth:
  "within_a_thousandth (req (calculateInductanceMatrix defaultParams)) (1206 / 10000)
   \<and> within_a_thousandth (maxwellMatrix (calculateInductanceMatrix defaultParams) ! 0 ! 0) (5517 / 1000)
   \<and> within_a_thousandth (maxwellMatrix (calculateInductanceMatrix defaultParams) ! 0 ! 1) (1067 / 1000)
   \<and> within_a_thousandth (maxwellMatrix (calculateInductanceMatrix defaultParams) ! 0 ! 2) (526 / 1000)
   \<and> within_a_thousandth (selfInductance (calculateInductanceMatrix defaultParams)) (1103 / 1000)
   \<and> within_a_thousandth (mutualInductanceAvg (calculateInductanceMatrix defaultParams)) (178 / 1000)"
proof (intro conjI)
  have "\<bar>sqrt (1453896 / 100000000 :: real) - 1206 / 10000\<bar> < 1 / 1000"
    using default_req_bounds by linarith
  then show "within_a_thousandth (req (calculateInductanceMatrix defaultParams)) (1206 / 10000)"
    by (simp add: default_req)
  have "\<bar>ln (900 / (1453896 / 100000000) :: real) / 2 - 5517 / 1000\<bar> < 1 / 1000"
    using default_bounds(1,2) by linarith
  then show "within_a_thousandth (maxwellMatrix (calculateInductanceMatrix defaultParams) ! 0 ! 0) (5517 / 1000)"
    by (simp add: default_maxwellMatrix)
  have "\<bar>ln (1021 / 121 :: real) / 2 - 1067 / 1000\<bar> < 1 / 1000"
    using default_bounds(3,4) by linarith
  then show "within_a_thousandth (maxwellMatrix (calculateInductanceMatrix defaultParams) ! 0 ! 1) (1067 / 1000)"
    by (simp add: default_maxwellMatrix)
  have "\<bar>ln (1384 / 484 :: real) / 2 - 526 / 1000\<bar> < 1 / 1000"
    using default_bounds(5,6) by linarith
  then show "within_a_thousandth (maxwellMatrix (calculateInductanceMatrix defaultParams) ! 0 ! 2) (526 / 1000)"
    by (simp add: default_maxwellMatrix)
  have "\<bar>ln (900 / (1453896 / 100000000) :: real) / 2 * (2 / 10) - 1103 / 1000\<bar> < 1 / 1000"
    using default_bounds(1,2) by linarith
  then show "within_a_thousandth (selfInductance (calculateInductanceMatrix defaultParams)) (1103 / 1000)"
    by (simp add: default_selfInductance)
  have "(2 * (ln (1021 / 121 :: real) / 2) + ln (1384 / 484) / 2) / 3 * (2 / 10)
        = ln (1021 / 121) / 15 + ln (1384 / 484) / 30"
    by simp
  then have "\<bar>(2 * (ln (1021 / 121 :: real) / 2) + ln (1384 / 484) / 2) / 3 * (2 / 10)
               - 178 / 1000\<bar> < 1 / 1000"
    using default_bounds(3,4,5,6) by linarith
  then show "within_a_thousandth (mutualInductanceAvg (calculateInductanceMatrix defaultParams)) (178 / 1000)"
    by (simp add: default_mutualInductanceAvg)
qed

end
